theory Spec2Isabelle
  imports Main "HOL-Library.Multiset"
begin

section \<open>Transcript merge (TranscriptView)\<close>

text \<open>
  JavaScript strings are sequences of UTF-16 code units; a transcript text is modelled as
  the list of its code units. \<open>String.prototype.trim\<close> removes the ECMAScript white space
  and line terminator code units from both ends.
\<close>

type_synonym jsstring = "nat list"

definition utf16 :: "string \<Rightarrow> jsstring" where
  "utf16 s = map of_char s"

definition js_whitespace :: "nat \<Rightarrow> bool" where
  "js_whitespace c =
     (c \<in> set [9, 10, 11, 12, 13, 32, 160, 5760, 8232, 8233, 8239, 8287, 12288, 65279]
      \<or> (8192 \<le> c \<and> c \<le> 8202))"

definition trim :: "jsstring \<Rightarrow> jsstring" where
  "trim s = rev (dropWhile js_whitespace (rev (dropWhile js_whitespace s)))"

text \<open>
  A segment as the transcription hook delivers it. A property that may be \<open>undefined\<close>
  is an option; \<open>firstReceivedTime\<close> is a number of milliseconds.
\<close>

record segment =
  seg_text :: "jsstring option"
  seg_id :: "string option"
  final :: bool
  firstReceivedTime :: "int option"

datatype role = Agent | User

record view_segment =
  role :: role
  view_text :: jsstring
  view_id :: string
  isFinal :: bool
  timestamp :: int

record transcript_data =
  agent :: "segment list"
  user :: "segment list"

text \<open>\<open>segment.text?.trim()\<close> as a condition: the text is there and its trimmed form is not empty.\<close>

definition has_text :: "segment \<Rightarrow> bool" where
  "has_text s = (case seg_text s of None \<Rightarrow> False | Some t \<Rightarrow> trim t \<noteq> [])"

text \<open>\<open>segment.firstReceivedTime || 0\<close>: \<open>undefined\<close> and \<open>0\<close> are falsy.\<close>

definition timestamp_of :: "segment \<Rightarrow> int" where
  "timestamp_of s = (case firstReceivedTime s of None \<Rightarrow> 0 | Some t \<Rightarrow> if t = 0 then 0 else t)"

text \<open>Decimal rendering of a number inside a template literal.\<close>

fun digits :: "nat \<Rightarrow> string" where
  "digits n = (if n < 10 then [char_of (48 + n)] else digits (n div 10) @ [char_of (48 + n mod 10)])"

definition show_int :: "int \<Rightarrow> string" where
  "show_int i = (if i < 0 then CHR ''-'' # digits (nat (- i)) else digits (nat i))"

definition show_time :: "int option \<Rightarrow> string" where
  "show_time t = (case t of None \<Rightarrow> ''undefined'' | Some i \<Rightarrow> show_int i)"

definition role_name :: "role \<Rightarrow> string" where
  "role_name r = (case r of Agent \<Rightarrow> ''agent'' | User \<Rightarrow> ''user'')"

text \<open>\<open>segment.id || `agent-${segment.firstReceivedTime}`\<close>: a missing or empty id is falsy.\<close>

definition id_of :: "role \<Rightarrow> segment \<Rightarrow> string" where
  "id_of r s =
     (case seg_id s of
        Some i \<Rightarrow> if i \<noteq> [] then i else role_name r @ ''-'' @ show_time (firstReceivedTime s)
      | None \<Rightarrow> role_name r @ ''-'' @ show_time (firstReceivedTime s))"

definition entry :: "role \<Rightarrow> segment \<Rightarrow> view_segment" where
  "entry r s =
     \<lparr>role = r, view_text = (case seg_text s of None \<Rightarrow> [] | Some t \<Rightarrow> t), view_id = id_of r s,
      isFinal = final s, timestamp = timestamp_of s\<rparr>"

text \<open>The two \<open>for\<close> loops: every segment with text is pushed, the agent's first.\<close>

definition pushed :: "role \<Rightarrow> segment list \<Rightarrow> view_segment list" where
  "pushed r segs = map (entry r) (filter has_text segs)"

definition collected :: "transcript_data option \<Rightarrow> view_segment list" where
  "collected td =
     (case td of
        None \<Rightarrow> []
      | Some d \<Rightarrow> pushed Agent (agent d) @ pushed User (user d))"

text \<open>
  \<open>allSegments.sort((a, b) => a.timestamp - b.timestamp)\<close>: \<open>Array.prototype.sort\<close> is a
  stable sort, here by the timestamp; \<open>sort_key\<close> is the stable insertion sort.
\<close>

definition allSegments :: "transcript_data option \<Rightarrow> view_segment list" where
  "allSegments td = sort_key timestamp (collected td)"

section \<open>JSON values and JavaScript truthiness\<close>

text \<open>
  A parsed JSON value. An object is the list of its members; numbers are integers here.
\<close>

datatype json =
    JNull
  | JBool bool
  | JNum int
  | JStr string
  | JArr "json list"
  | JObj "(string \<times> json) list"

text \<open>
  Reading a property of a value that is not \<open>null\<close>: \<open>undefined\<close> is \<open>None\<close>. Only an
  object has the members the code reads. (Reading a property of \<open>null\<close> throws; each caller
  below handles \<open>JNull\<close> before it reads.)
\<close>

fun js_get :: "json \<Rightarrow> string \<Rightarrow> json option" where
  "js_get (JObj kvs) k = map_of kvs k"
| "js_get _ k = None"

fun truthy :: "json option \<Rightarrow> bool" where
  "truthy None = False"
| "truthy (Some JNull) = False"
| "truthy (Some (JBool b)) = b"
| "truthy (Some (JNum n)) = (n \<noteq> 0)"
| "truthy (Some (JStr s)) = (s \<noteq> [])"
| "truthy (Some (JArr xs)) = True"
| "truthy (Some (JObj kvs)) = True"

text \<open>\<open>a || b\<close>: the left operand when it is truthy, the right one otherwise.\<close>

definition js_or :: "json option \<Rightarrow> json option \<Rightarrow> json option" where
  "js_or a b = (if truthy a then a else b)"

section \<open>The token endpoint (lib/api.js)\<close>

datatype error_detail = Detail json | HttpStatus nat

datatype error =
    SessionInitialization
  | MissingConnectionFields
  | TypeError
  | FetchRejected
  | BodyNotJson
  | ApiError error_detail

record request =
  endpoint :: string
  http_method :: string
  body :: json

text \<open>
  What \<open>fetch\<close> gives back: it rejects, or it resolves to a response with its \<open>ok\<close> flag,
  its status, and its body as \<open>response.json()\<close> reads it (\<open>None\<close> when the body is not JSON).
\<close>

datatype fetch_result = Rejects | Response bool nat "json option"

definition apiFetch :: "(request \<Rightarrow> fetch_result) \<Rightarrow> request \<Rightarrow> error + json" where
  "apiFetch fetch req =
     (case fetch req of
        Rejects \<Rightarrow> Inl FetchRejected
      | Response ok status parsed \<Rightarrow>
          if \<not> ok then
            (case (case parsed of None \<Rightarrow> JObj [(''detail'', JStr ''Unknown error'')] | Some e \<Rightarrow> e) of
               JNull \<Rightarrow> Inl TypeError
             | e \<Rightarrow>
                 (case js_get e ''detail'' of
                    None \<Rightarrow> Inl (ApiError (HttpStatus status))
                  | Some d \<Rightarrow>
                      if truthy (Some d) then Inl (ApiError (Detail d))
                      else Inl (ApiError (HttpStatus status))))
          else (case parsed of None \<Rightarrow> Inl BodyNotJson | Some j \<Rightarrow> Inr j))"

text \<open>
  \<open>getToken(roomName = 'voice-agent-room', participantName = 'user')\<close> declares two
  parameters: a default replaces an argument that is \<open>undefined\<close>, and any further argument
  of a call is not bound to anything.
\<close>

definition getToken_request :: "string option \<Rightarrow> string option \<Rightarrow> string list \<Rightarrow> request" where
  "getToken_request roomName participantName further =
     \<lparr>endpoint = ''/token'', http_method = ''POST'',
      body = JObj [(''room_name'', JStr (case roomName of None \<Rightarrow> ''voice-agent-room'' | Some r \<Rightarrow> r)),
                   (''participant_name'', JStr (case participantName of None \<Rightarrow> ''user'' | Some n \<Rightarrow> n))]\<rparr>"

definition getToken ::
  "(request \<Rightarrow> fetch_result) \<Rightarrow> string option \<Rightarrow> string option \<Rightarrow> string list \<Rightarrow> error + json" where
  "getToken fetch roomName participantName further =
     apiFetch fetch (getToken_request roomName participantName further)"

section \<open>Session parameters and the token source (VoiceAgent)\<close>

record session_params =
  roomName :: string
  participantName :: string

text \<open>
  The initialiser of the \<open>sessionParams\<close> state runs once, when the component mounts. Its
  argument is what \<open>crypto.randomUUID()\<close> returns, or \<open>None\<close> where it is not available.
\<close>

definition init_sessionParams :: "string option \<Rightarrow> session_params option" where
  "init_sessionParams randomUUID =
     (case randomUUID of
        None \<Rightarrow> None
      | Some sessionId \<Rightarrow>
          Some \<lparr>roomName = ''voice-demo-'' @ sessionId, participantName = ''user-'' @ sessionId\<rparr>)"

record token_options =
  agentName :: "string option"

record credential =
  participantToken :: json
  serverUrl :: json

text \<open>\<open>options?.agentName || 'voice-agent'\<close>\<close>

definition agent_argument :: "token_options option \<Rightarrow> string" where
  "agent_argument options =
     (case options of
        None \<Rightarrow> ''voice-agent''
      | Some opts \<Rightarrow>
          (case agentName opts of
             None \<Rightarrow> ''voice-agent''
           | Some a \<Rightarrow> if a \<noteq> [] then a else ''voice-agent''))"

text \<open>The request a call of the token source sends, or the error it throws before sending.\<close>

definition token_request :: "session_params option \<Rightarrow> token_options option \<Rightarrow> error + request" where
  "token_request sessionParams options =
     (case sessionParams of
        None \<Rightarrow> Inl SessionInitialization
      | Some sp \<Rightarrow>
          Inr (getToken_request (Some (roomName sp)) (Some (participantName sp))
                 [agent_argument options]))"

text \<open>What the token source makes of the endpoint's answer \<open>data\<close>.\<close>

definition connection_fields :: "json \<Rightarrow> error + credential" where
  "connection_fields data =
     (if data = JNull then Inl TypeError
      else
        (case (js_or (js_or (js_get data ''participant_token'') (js_get data ''accessToken''))
                 (js_get data ''token''),
               js_or (js_get data ''server_url'') (js_get data ''livekit_url'')) of
           (Some t, Some u) \<Rightarrow>
             if \<not> truthy (Some t) \<or> \<not> truthy (Some u) then Inl MissingConnectionFields
             else Inr \<lparr>participantToken = t, serverUrl = u\<rparr>
         | _ \<Rightarrow> Inl MissingConnectionFields))"

definition tokenSource ::
  "session_params option \<Rightarrow> token_options option \<Rightarrow> (request \<Rightarrow> fetch_result) \<Rightarrow> error + credential" where
  "tokenSource sessionParams options fetch =
     (case sessionParams of
        None \<Rightarrow> Inl SessionInitialization
      | Some sp \<Rightarrow>
          (case getToken fetch (Some (roomName sp)) (Some (participantName sp))
                  [agent_argument options] of
             Inl e \<Rightarrow> Inl e
           | Inr data \<Rightarrow> connection_fields data))"

section \<open>The connection controller (VoiceAgent, ConnectionControls)\<close>

datatype ConnectionState = Disconnected | Connecting | Connected | Reconnecting

definition maxRetries :: nat where
  "maxRetries = 2"

text \<open>\<open>useSession(tokenSource, { agentName: 'voice-agent', ... })\<close>\<close>

definition session_options :: token_options where
  "session_options = \<lparr>agentName = Some ''voice-agent''\<rparr>"

text \<open>
  The state of a mounted component: the session's connection state, the retry counter
  \<open>retryAttemptsRef.current\<close>, the session parameters, and the timers. \<open>watchdog\<close> says
  whether the 15000 ms timer of the watchdog effect is pending; \<open>backoff\<close> holds the delays
  of the pending timers that \<open>handleRetry\<close> has set, oldest first. \<open>attempts\<close> records, for
  every \<open>session.start()\<close> so far, what the token source does for it.
\<close>

record controller =
  connectionState :: ConnectionState
  retryAttempts :: nat
  sessionParams :: "session_params option"
  watchdog :: bool
  backoff :: "nat list"
  attempts :: "(error + request) list"

definition VoiceAgent_mount :: "string option \<Rightarrow> controller" where
  "VoiceAgent_mount randomUUID =
     \<lparr>connectionState = Disconnected, retryAttempts = 0,
      sessionParams = init_sessionParams randomUUID,
      watchdog = False, backoff = [], attempts = []\<rparr>"

text \<open>
  The two effects that depend on \<open>session.connectionState\<close>, run when it has changed from
  \<open>previous\<close>: the first resets the retry counter on \<open>Connected\<close>; the second clears the
  watchdog timer of the state left (its cleanup) and sets a new one on \<open>Connecting\<close> and
  \<open>Reconnecting\<close>.
\<close>

definition connection_effects :: "ConnectionState \<Rightarrow> controller \<Rightarrow> controller" where
  "connection_effects previous s =
     (if connectionState s = previous then s
      else s\<lparr>retryAttempts := (if connectionState s = Connected then 0 else retryAttempts s),
             watchdog := (connectionState s = Connecting \<or> connectionState s = Reconnecting)\<rparr>)"

definition set_connectionState :: "ConnectionState \<Rightarrow> controller \<Rightarrow> controller" where
  "set_connectionState c s = connection_effects (connectionState s) (s\<lparr>connectionState := c\<rparr>)"

text \<open>
  The session object comes from the media library, which is not part of the repository.
  Its two operations follow the specification's transitions: \<open>end()\<close> yields
  \<open>Disconnected\<close>; \<open>start()\<close> ends a session that is active, calls the token source and
  enters \<open>Connecting\<close>.
\<close>

definition session_end :: "controller \<Rightarrow> controller" where
  "session_end s = set_connectionState Disconnected s"

definition session_start :: "controller \<Rightarrow> controller" where
  "session_start s =
     (let s1 = session_end s;
          s2 = s1\<lparr>attempts := attempts s1 @ [token_request (sessionParams s1) (Some session_options)]\<rparr>
      in set_connectionState Connecting s2)"

definition handleConnect :: "controller \<Rightarrow> controller" where
  "handleConnect s = session_start s"

definition handleDisconnect :: "controller \<Rightarrow> controller" where
  "handleDisconnect s = session_end s"

definition handleRetry :: "controller \<Rightarrow> controller" where
  "handleRetry s =
     (if retryAttempts s \<ge> maxRetries then s
      else if connectionState s \<noteq> Connecting \<and> connectionState s \<noteq> Reconnecting then s
      else
        (let s1 = s\<lparr>retryAttempts := retryAttempts s + 1\<rparr>;
             s2 = session_end s1
         in s2\<lparr>backoff := backoff s2 @ [700 * retryAttempts s2]\<rparr>))"

text \<open>
  What can happen to a mounted component: the two buttons, the two kinds of timer, and the
  library reporting that the join succeeded, that the transport dropped, or that the
  attempt failed.
\<close>

datatype event =
    StartCall
  | EndCall
  | WatchdogFires
  | BackoffFires
  | JoinSucceeds
  | TransportDrops
  | AttemptFails

definition step :: "event \<Rightarrow> controller \<Rightarrow> controller" where
  "step e s =
     (case e of
        StartCall \<Rightarrow> handleConnect s
      | EndCall \<Rightarrow> handleDisconnect s
      | WatchdogFires \<Rightarrow> (if watchdog s then handleRetry (s\<lparr>watchdog := False\<rparr>) else s)
      | BackoffFires \<Rightarrow>
          (case backoff s of [] \<Rightarrow> s | d # ds \<Rightarrow> session_start (s\<lparr>backoff := ds\<rparr>))
      | JoinSucceeds \<Rightarrow>
          (if connectionState s = Connecting \<or> connectionState s = Reconnecting
           then set_connectionState Connected s else s)
      | TransportDrops \<Rightarrow>
          (if connectionState s = Connected then set_connectionState Reconnecting s else s)
      | AttemptFails \<Rightarrow>
          (if connectionState s = Connecting \<or> connectionState s = Reconnecting
           then set_connectionState Disconnected s else s))"

fun run :: "controller \<Rightarrow> event list \<Rightarrow> controller" where
  "run s [] = s"
| "run s (e # es) = run (step e s) es"

text \<open>
  The session joins with the credential that the token source returned for the attempt
  (the specification's transition into \<open>Connecting\<close>: the Credential Provider is called,
  then the join is tried with the returned credential). So a join can succeed only when
  the token source, called as the session calls it, returns a credential.
\<close>

definition join_possible :: "(request \<Rightarrow> fetch_result) \<Rightarrow> controller \<Rightarrow> bool" where
  "join_possible fetch s =
     (case tokenSource (sessionParams s) (Some session_options) fetch of
        Inl e \<Rightarrow> False
      | Inr c \<Rightarrow> True)"

text \<open>The events of a session whose endpoint is \<open>fetch\<close>: a join without a credential does not happen.\<close>

definition session_step :: "(request \<Rightarrow> fetch_result) \<Rightarrow> event \<Rightarrow> controller \<Rightarrow> controller" where
  "session_step fetch e s = (if e = JoinSucceeds \<and> \<not> join_possible fetch s then s else step e s)"



text \<open>
  The schedule in which every attempt stays in \<open>Connecting\<close> until its watchdog fires and
  every retry timer then runs out.
\<close>

definition retry_schedule :: "event list" where
  "retry_schedule = [WatchdogFires, BackoffFires, WatchdogFires, BackoffFires, WatchdogFires]"


section \<open>Push to talk (ConnectedMicPanel)\<close>

record mic_panel =
  isPushToTalkActive :: bool
  isMicrophoneEnabled :: bool

datatype promise = Resolved | Rejected

text \<open>
  \<open>localParticipant.setMicrophoneEnabled\<close> belongs to the media library: when the device
  can be used (\<open>device_ok\<close>) the microphone takes the requested state and the promise
  resolves; otherwise nothing changes and the promise rejects.
\<close>

definition setMicrophoneEnabled :: "bool \<Rightarrow> bool \<Rightarrow> mic_panel \<Rightarrow> mic_panel \<times> promise" where
  "setMicrophoneEnabled device_ok enabled p =
     (if device_ok then (p\<lparr>isMicrophoneEnabled := enabled\<rparr>, Resolved) else (p, Rejected))"

definition startTalking :: "bool \<Rightarrow> mic_panel \<Rightarrow> mic_panel \<times> promise" where
  "startTalking device_ok p = setMicrophoneEnabled device_ok True (p\<lparr>isPushToTalkActive := True\<rparr>)"

definition stopTalking :: "bool \<Rightarrow> mic_panel \<Rightarrow> mic_panel \<times> promise" where
  "stopTalking device_ok p = setMicrophoneEnabled device_ok False (p\<lparr>isPushToTalkActive := False\<rparr>)"

text \<open>
  The window listeners for pointer-up, pointer-cancel and blur exist while the flag is on;
  \<open>handleRelease\<close> calls \<open>stopTalking\<close> and swallows a rejection.
\<close>

definition handleRelease :: "bool \<Rightarrow> mic_panel \<Rightarrow> mic_panel" where
  "handleRelease device_ok p = (if isPushToTalkActive p then fst (stopTalking device_ok p) else p)"

section \<open>Citation messages (AgentVisualizer, App)\<close>

text \<open>\<open>handleRagSourcesUpdate\<close> of the application stores what it is given.\<close>

definition handleRagSourcesUpdate :: "json \<Rightarrow> json \<Rightarrow> json" where
  "handleRagSourcesUpdate sources ragSources = sources"

text \<open>
  The handler of topic \<open>rag-sources\<close>. \<open>parsed\<close> is what \<open>JSON.parse\<close> makes of the decoded
  payload, \<open>None\<close> when it throws; reading \<open>data.type\<close> of \<open>null\<close> throws as well. The
  \<open>catch\<close> block logs and changes nothing. \<open>onRagSourcesUpdate\<close> is the callback property,
  which may be missing.
\<close>

definition rag_sources_message :: "(json \<Rightarrow> 'st \<Rightarrow> 'st) option \<Rightarrow> json option \<Rightarrow> 'st \<Rightarrow> 'st" where
  "rag_sources_message onRagSourcesUpdate parsed st =
     (case parsed of
        None \<Rightarrow> st
      | Some data \<Rightarrow>
          if data = JNull then st
          else
            (case (js_get data ''sources'', onRagSourcesUpdate) of
               (Some sources, Some update) \<Rightarrow>
                 if js_get data ''type'' = Some (JStr ''rag_sources'') \<and> truthy (Some sources)
                 then update sources st else st
             | _ \<Rightarrow> st))"

section \<open>Properties of the transcript merge\<close>


lemma sorted_allSegments: "sorted (map timestamp (allSegments td))"
  by (simp add: allSegments_def)



lemma timestamp_entry: "timestamp (entry r s) = timestamp_of s"
  by (simp add: entry_def)



text \<open>
  Claim C10. A segment whose \<open>firstReceivedTime\<close> is missing or zero gets the timestamp 0,
  and wherever it stands in the merged view, every entry with a positive timestamp stands
  after it.
\<close>

theorem missing_time_sorts_first:
  assumes "firstReceivedTime s = None \<or> firstReceivedTime s = Some 0"
    and "i < length (allSegments td)" and "j < length (allSegments td)"
    and "allSegments td ! i = entry r s"
    and "0 < timestamp (allSegments td ! j)"
  shows "timestamp (entry r s) = 0 \<and> i < j"
proof -
  have z: "timestamp (entry r s) = 0"
    using assms(1) by (auto simp: timestamp_entry timestamp_of_def)
  have "i < j"
  proof (rule ccontr)
    assume "\<not> i < j"
    then have "j \<le> i" by simp
    with sorted_allSegments [of td] assms(2)
    have "map timestamp (allSegments td) ! j \<le> map timestamp (allSegments td) ! i"
      by (simp add: sorted_iff_nth_mono del: nth_map)
    with assms(2,3) have "timestamp (allSegments td ! j) \<le> timestamp (allSegments td ! i)"
      by simp
    with assms(4,5) z show False by simp
  qed
  with z show ?thesis by simp
qed

text \<open>
  The theorem at a transcript of one agent segment received at time 100 and one user
  segment without a time: the user's segment comes first.
\<close>

theorem missing_time_sorts_first_witness:
  "timestamp (entry User \<lparr>seg_text = Some (utf16 ''yo''), seg_id = Some ''u1'', final = False,
                          firstReceivedTime = None\<rparr>) = 0
   \<and> allSegments (Some \<lparr>agent = [\<lparr>seg_text = Some (utf16 ''hi''), seg_id = Some ''a1'',
                                  final = True, firstReceivedTime = Some 100\<rparr>],
                        user = [\<lparr>seg_text = Some (utf16 ''yo''), seg_id = Some ''u1'',
                                 final = False, firstReceivedTime = None\<rparr>]\<rparr>) ! 0
       = entry User \<lparr>seg_text = Some (utf16 ''yo''), seg_id = Some ''u1'', final = False,
                     firstReceivedTime = None\<rparr>
   \<and> (0::nat) < 1"
proof -
  let ?u = "\<lparr>seg_text = Some (utf16 ''yo''), seg_id = Some ''u1'', final = False,
             firstReceivedTime = None\<rparr>"
  let ?a = "\<lparr>seg_text = Some (utf16 ''hi''), seg_id = Some ''a1'', final = True,
             firstReceivedTime = Some 100\<rparr>"
  let ?td = "Some \<lparr>agent = [?a], user = [?u]\<rparr>"
  have v: "allSegments ?td = [entry User ?u, entry Agent ?a]"
    by (simp add: allSegments_def collected_def pushed_def has_text_def trim_def
        js_whitespace_def utf16_def entry_def timestamp_of_def)
  have h1: "firstReceivedTime ?u = None \<or> firstReceivedTime ?u = Some 0" by simp
  have h2: "0 < length (allSegments ?td)" and h3: "1 < length (allSegments ?td)"
    by (simp_all add: v)
  have h4: "allSegments ?td ! 0 = entry User ?u" by (simp add: v)
  have h5: "0 < timestamp (allSegments ?td ! 1)"
    by (simp add: v timestamp_entry timestamp_of_def)
  from missing_time_sorts_first [OF h1 h2 h3 h4 h5] h4 show ?thesis by simp
qed

section \<open>Properties of the connection controller\<close>

lemmas controller_defs =
  step_def handleConnect_def handleDisconnect_def handleRetry_def session_start_def
  session_end_def set_connectionState_def connection_effects_def Let_def maxRetries_def

lemma step_retryAttempts:
  "retryAttempts s \<le> maxRetries \<Longrightarrow> retryAttempts (step e s) \<le> maxRetries"
  by (cases e) (auto simp: controller_defs split: list.splits)

lemma run_retryAttempts:
  "retryAttempts s \<le> maxRetries \<Longrightarrow> retryAttempts (run s evs) \<le> maxRetries"
  by (induction evs arbitrary: s) (simp_all add: step_retryAttempts)

lemma handleRetry_guard:
  assumes "\<not> ((connectionState s = Connecting \<or> connectionState s = Reconnecting)
              \<and> retryAttempts s < maxRetries)"
  shows "handleRetry s = s"
  using assms by (auto simp: handleRetry_def)

lemma late_watchdog:
  assumes "connectionState s = Connected \<or> connectionState s = Disconnected"
  shows "step WatchdogFires s = s\<lparr>watchdog := False\<rparr>"
  using assms by (auto simp: step_def handleRetry_def)


lemma session_step_cases:
  "session_step fetch e s = step e s \<or> (e = JoinSucceeds \<and> session_step fetch e s = s)"
  by (simp add: session_step_def)












lemma step_sessionParams: "sessionParams (step e s) = sessionParams s"
  by (cases e) (auto simp: controller_defs split: list.splits)

lemma run_sessionParams: "sessionParams (run s evs) = sessionParams s"
  by (induction evs arbitrary: s) (simp_all add: step_sessionParams)

lemma step_attempts:
  assumes "\<forall>a \<in> set (attempts s). a = token_request (sessionParams s) (Some session_options)"
  shows "\<forall>a \<in> set (attempts (step e s)). a = token_request (sessionParams s) (Some session_options)"
  using assms by (cases e) (auto simp: controller_defs split: list.splits)

lemma run_attempts:
  assumes "\<forall>a \<in> set (attempts s). a = token_request (sessionParams s) (Some session_options)"
  shows "\<forall>a \<in> set (attempts (run s evs)). a = token_request (sessionParams s) (Some session_options)"
  using assms
proof (induction evs arbitrary: s)
  case Nil
  then show ?case by simp
next
  case (Cons e evs)
  from step_attempts [OF Cons.prems, of e]
  have "\<forall>a \<in> set (attempts (step e s)).
          a = token_request (sessionParams (step e s)) (Some session_options)"
    by (simp add: step_sessionParams)
  from Cons.IH [OF this] show ?case by (simp add: step_sessionParams)
qed




text \<open>
  Claim C4, at the events: start, watchdog (first retry: the session is ended and a 700 ms
  timer set), start by the user, join, end of the call. The end yields \<open>Disconnected\<close> and
  no watchdog is pending, but the retry timer still is; when it fires, \<open>session.start()\<close>
  runs a third time and the state is \<open>Connecting\<close>.
\<close>

theorem retry_timer_outlives_end:
  "connectionState (run (VoiceAgent_mount (Some ''s1''))
      [StartCall, WatchdogFires, StartCall, JoinSucceeds, EndCall]) = Disconnected
   \<and> \<not> watchdog (run (VoiceAgent_mount (Some ''s1''))
      [StartCall, WatchdogFires, StartCall, JoinSucceeds, EndCall])
   \<and> backoff (run (VoiceAgent_mount (Some ''s1''))
      [StartCall, WatchdogFires, StartCall, JoinSucceeds, EndCall]) = [700]
   \<and> connectionState (run (VoiceAgent_mount (Some ''s1''))
      [StartCall, WatchdogFires, StartCall, JoinSucceeds, EndCall, BackoffFires]) = Connecting
   \<and> length (attempts (run (VoiceAgent_mount (Some ''s1''))
      [StartCall, WatchdogFires, StartCall, JoinSucceeds, EndCall, BackoffFires])) = 3"
  by (simp add: VoiceAgent_mount_def controller_defs)

text \<open>
  Claim C8, as the code has it. The room name and the participant name are made once, when
  the component mounts, from the random session id; they are not empty, no event changes
  them, and every attempt, retries included, sends the same two names.
\<close>

theorem session_names_made_once:
  "sessionParams (run (VoiceAgent_mount (Some sessionId)) evs)
     = Some \<lparr>roomName = ''voice-demo-'' @ sessionId, participantName = ''user-'' @ sessionId\<rparr>
   \<and> ''voice-demo-'' @ sessionId \<noteq> [] \<and> ''user-'' @ sessionId \<noteq> []
   \<and> (\<forall>a \<in> set (attempts (run (VoiceAgent_mount (Some sessionId)) evs)).
        a = Inr (getToken_request (Some (''voice-demo-'' @ sessionId))
                   (Some (''user-'' @ sessionId)) [''voice-agent'']))"
proof -
  let ?m = "VoiceAgent_mount (Some sessionId)"
  have sp: "sessionParams ?m
     = Some \<lparr>roomName = ''voice-demo-'' @ sessionId, participantName = ''user-'' @ sessionId\<rparr>"
    by (simp add: VoiceAgent_mount_def init_sessionParams_def)
  have tr: "token_request (sessionParams ?m) (Some session_options)
     = Inr (getToken_request (Some (''voice-demo-'' @ sessionId))
              (Some (''user-'' @ sessionId)) [''voice-agent''])"
    by (simp add: sp token_request_def agent_argument_def session_options_def)
  have "\<forall>a \<in> set (attempts ?m). a = token_request (sessionParams ?m) (Some session_options)"
    by (simp add: VoiceAgent_mount_def)
  from run_attempts [OF this, of evs] tr
  have "\<forall>a \<in> set (attempts (run ?m evs)).
        a = Inr (getToken_request (Some (''voice-demo-'' @ sessionId))
                   (Some (''user-'' @ sessionId)) [''voice-agent''])"
    by simp
  with sp show ?thesis by (simp add: run_sessionParams)
qed

text \<open>
  The theorem for the session id \<open>s1\<close> and a run with one retry: the request of the retry
  carries the names made at the mount.
\<close>

theorem session_names_made_once_witness:
  "attempts (run (VoiceAgent_mount (Some ''s1'')) [StartCall, WatchdogFires, BackoffFires]) ! 1
     = Inr (getToken_request (Some (''voice-demo-'' @ ''s1'')) (Some (''user-'' @ ''s1''))
              [''voice-agent''])"
proof -
  let ?as = "attempts (run (VoiceAgent_mount (Some ''s1'')) [StartCall, WatchdogFires, BackoffFires])"
  have "length ?as = 2"
    by (simp add: VoiceAgent_mount_def controller_defs)
  then have "?as ! 1 \<in> set ?as" by simp
  with session_names_made_once [of "''s1''" "[StartCall, WatchdogFires, BackoffFires]"]
  show ?thesis by blast
qed

text \<open>
  Against claim C8 as stated: the first attempt and the retry that follows it send the same
  room name and the same participant name.
\<close>

theorem retry_reuses_session_names:
  "attempts (run (VoiceAgent_mount (Some ''s1'')) [StartCall, WatchdogFires, BackoffFires])
     = [Inr \<lparr>endpoint = ''/token'', http_method = ''POST'',
             body = JObj [(''room_name'', JStr ''voice-demo-s1''),
                          (''participant_name'', JStr ''user-s1'')]\<rparr>,
        Inr \<lparr>endpoint = ''/token'', http_method = ''POST'',
             body = JObj [(''room_name'', JStr ''voice-demo-s1''),
                          (''participant_name'', JStr ''user-s1'')]\<rparr>]"
  by (simp add: VoiceAgent_mount_def controller_defs init_sessionParams_def token_request_def
      getToken_request_def)

text \<open>
  Claim C9. Unless the connection state is \<open>Connecting\<close> or \<open>Reconnecting\<close> and the retry
  counter is below \<open>maxRetries\<close>, the retry handler returns the state it was given. The
  counter is at most \<open>maxRetries = 2\<close> after any events from the mount on. A watchdog that
  fires in \<open>Connected\<close> or \<open>Disconnected\<close> uses up its timer and changes nothing else.
\<close>

theorem retry_handler_guarded:
  "(\<not> ((connectionState s = Connecting \<or> connectionState s = Reconnecting)
        \<and> retryAttempts s < maxRetries) \<longrightarrow> handleRetry s = s)
   \<and> retryAttempts (run (VoiceAgent_mount u) evs) \<le> maxRetries
   \<and> maxRetries = 2
   \<and> (connectionState s = Connected \<or> connectionState s = Disconnected
        \<longrightarrow> step WatchdogFires s = s\<lparr>watchdog := False\<rparr>)"
proof -
  have "retryAttempts (VoiceAgent_mount u) \<le> maxRetries"
    by (simp add: VoiceAgent_mount_def)
  then have "retryAttempts (run (VoiceAgent_mount u) evs) \<le> maxRetries"
    by (rule run_retryAttempts)
  with handleRetry_guard [of s] late_watchdog [of s] show ?thesis
    by (simp add: maxRetries_def)
qed

text \<open>
  The theorem at a connected session whose watchdog is taken to be still pending, and at
  the run of a start with both retries.
\<close>

theorem retry_handler_guarded_witness:
  "handleRetry \<lparr>connectionState = Connected, retryAttempts = 0, sessionParams = None,
                watchdog = True, backoff = [], attempts = []\<rparr>
     = \<lparr>connectionState = Connected, retryAttempts = 0, sessionParams = None,
        watchdog = True, backoff = [], attempts = []\<rparr>
   \<and> step WatchdogFires \<lparr>connectionState = Connected, retryAttempts = 0, sessionParams = None,
                          watchdog = True, backoff = [], attempts = []\<rparr>
     = \<lparr>connectionState = Connected, retryAttempts = 0, sessionParams = None,
        watchdog = False, backoff = [], attempts = []\<rparr>
   \<and> retryAttempts (run (VoiceAgent_mount (Some ''s1'')) (StartCall # retry_schedule)) \<le> maxRetries"
proof -
  let ?s = "\<lparr>connectionState = Connected, retryAttempts = 0, sessionParams = None,
             watchdog = True, backoff = [], attempts = []\<rparr>"
  have c: "connectionState ?s = Connected" by simp
  from retry_handler_guarded [of ?s "Some ''s1''" "StartCall # retry_schedule"] c
  show ?thesis by simp
qed

section \<open>Properties of the token source\<close>

lemma connection_fields_Inr:
  assumes "data \<noteq> JNull"
  shows "(\<exists>c. connection_fields data = Inr c) =
         ((truthy (js_get data ''participant_token'') \<or> truthy (js_get data ''accessToken'')
            \<or> truthy (js_get data ''token''))
          \<and> (truthy (js_get data ''server_url'') \<or> truthy (js_get data ''livekit_url'')))"
  using assms
  by (auto simp: connection_fields_def js_or_def split: option.splits)

lemma connection_fields_Inl:
  assumes "data \<noteq> JNull"
  shows "(connection_fields data = Inl MissingConnectionFields) =
         (\<not> ((truthy (js_get data ''participant_token'') \<or> truthy (js_get data ''accessToken'')
                \<or> truthy (js_get data ''token''))
             \<and> (truthy (js_get data ''server_url'') \<or> truthy (js_get data ''livekit_url''))))"
  using assms
  by (auto simp: connection_fields_def js_or_def split: option.splits)

lemma connection_fields_values:
  assumes "connection_fields data = Inr c"
  shows "truthy (Some (participantToken c)) \<and> truthy (Some (serverUrl c))
     \<and> Some (participantToken c)
         \<in> {js_get data ''participant_token'', js_get data ''accessToken'', js_get data ''token''}
     \<and> Some (serverUrl c) \<in> {js_get data ''server_url'', js_get data ''livekit_url''}"
  using assms
  by (auto simp: connection_fields_def js_or_def split: option.splits if_splits)

lemma tokenSource_response:
  assumes "fetch (getToken_request (Some (roomName sp)) (Some (participantName sp))
                    [agent_argument options]) = Response True status (Some data)"
  shows "tokenSource (Some sp) options fetch = connection_fields data"
  using assms by (simp add: tokenSource_def getToken_def apiFetch_def)

lemma truthy_string: "truthy (Some (JStr s)) = (s \<noteq> [])"
  by simp

lemma tokenSource_sends_token_request:
  "tokenSource sp options fetch =
     (case token_request sp options of
        Inl e \<Rightarrow> Inl e
      | Inr req \<Rightarrow>
          (case apiFetch fetch req of Inl e \<Rightarrow> Inl e | Inr data \<Rightarrow> connection_fields data))"
  by (simp add: tokenSource_def token_request_def getToken_def split: option.splits)

text \<open>
  Claim C5, as the code has it. When the endpoint answers with a JSON value \<open>data\<close> other
  than \<open>null\<close>, the token source returns a pair exactly when one of \<open>participant_token\<close>,
  \<open>accessToken\<close>, \<open>token\<close> and one of \<open>server_url\<close>, \<open>livekit_url\<close> is there and not
  empty (truthy: for a string, not the empty string); the pair then holds such values of
  these members. It fails with the error of the missing connection fields exactly when the
  token or the URL is missing or empty under every one of its names. When the answer is
  \<open>null\<close>, reading its first member throws, and the token source fails with that type
  error.
\<close>

theorem credential_fields_or_error:
  assumes "fetch (getToken_request (Some (roomName sp)) (Some (participantName sp))
                    [agent_argument options]) = Response True status (Some data)"
  shows "(data \<noteq> JNull \<longrightarrow>
          ((\<exists>c. tokenSource (Some sp) options fetch = Inr c
            \<and> truthy (Some (participantToken c)) \<and> truthy (Some (serverUrl c))
            \<and> Some (participantToken c)
                \<in> {js_get data ''participant_token'', js_get data ''accessToken'',
                    js_get data ''token''}
            \<and> Some (serverUrl c) \<in> {js_get data ''server_url'', js_get data ''livekit_url''})
          = ((truthy (js_get data ''participant_token'') \<or> truthy (js_get data ''accessToken'')
                \<or> truthy (js_get data ''token''))
             \<and> (truthy (js_get data ''server_url'') \<or> truthy (js_get data ''livekit_url''))))
       \<and> ((tokenSource (Some sp) options fetch = Inl MissingConnectionFields)
          = (\<not> ((truthy (js_get data ''participant_token'') \<or> truthy (js_get data ''accessToken'')
                    \<or> truthy (js_get data ''token''))
                 \<and> (truthy (js_get data ''server_url'') \<or> truthy (js_get data ''livekit_url''))))))
     \<and> (data = JNull \<longrightarrow> tokenSource (Some sp) options fetch = Inl TypeError)"
proof -
  have t: "tokenSource (Some sp) options fetch = connection_fields data"
    by (rule tokenSource_response [of fetch sp options status data, OF assms(1)])
  have v: "(\<exists>c. connection_fields data = Inr c
            \<and> truthy (Some (participantToken c)) \<and> truthy (Some (serverUrl c))
            \<and> Some (participantToken c)
                \<in> {js_get data ''participant_token'', js_get data ''accessToken'',
                    js_get data ''token''}
            \<and> Some (serverUrl c) \<in> {js_get data ''server_url'', js_get data ''livekit_url''})
        = (\<exists>c. connection_fields data = Inr c)"
    using connection_fields_values [of data] by blast
  have n: "connection_fields JNull = Inl TypeError"
    by (simp add: connection_fields_def)
  show ?thesis
  proof (cases "data = JNull")
    case True
    with t n show ?thesis by simp
  next
    case False
    with t v connection_fields_Inr [OF False] connection_fields_Inl [OF False]
    show ?thesis by simp
  qed
qed

text \<open>
  The theorem at an answer that names the token \<open>token\<close> and the URL \<open>livekit_url\<close>: the
  pair is returned, and the error is not.
\<close>

theorem credential_fields_or_error_witness:
  "(\<exists>c. tokenSource (Some \<lparr>roomName = ''r1'', participantName = ''p1''\<rparr>) None
          (\<lambda>req. Response True 200
             (Some (JObj [(''token'', JStr ''t1''), (''livekit_url'', JStr ''wss://x'')]))) = Inr c
        \<and> truthy (Some (participantToken c)) \<and> truthy (Some (serverUrl c))
        \<and> Some (participantToken c) \<in> {None, Some (JStr ''t1'')}
        \<and> Some (serverUrl c) \<in> {None, Some (JStr ''wss://x'')})
   \<and> tokenSource (Some \<lparr>roomName = ''r1'', participantName = ''p1''\<rparr>) None
          (\<lambda>req. Response True 200
             (Some (JObj [(''token'', JStr ''t1''), (''livekit_url'', JStr ''wss://x'')])))
       \<noteq> Inl MissingConnectionFields"
proof -
  let ?data = "JObj [(''token'', JStr ''t1''), (''livekit_url'', JStr ''wss://x'')]"
  let ?sp = "\<lparr>roomName = ''r1'', participantName = ''p1''\<rparr>"
  let ?fetch = "\<lambda>req::request. Response True 200 (Some ?data)"
  have h1: "?fetch (getToken_request (Some (roomName ?sp)) (Some (participantName ?sp))
                      [agent_argument None]) = Response True 200 (Some ?data)"
    by simp
  have h2: "?data \<noteq> JNull" by simp
  from credential_fields_or_error [of ?fetch ?sp None 200 ?data, OF h1] h2
  show ?thesis by simp
qed

text \<open>
  Against claim C5 as stated: an answer with status ok and the body \<open>null\<close> has neither
  the token nor the URL under any of their names, and the token source fails with the
  type error, not with the error of the missing connection fields.
\<close>

theorem null_answer_type_error:
  "tokenSource (Some \<lparr>roomName = ''r1'', participantName = ''p1''\<rparr>) None
       (\<lambda>req. Response True 200 (Some JNull)) = Inl TypeError
   \<and> Inl TypeError \<noteq> (Inl MissingConnectionFields :: error + credential)
   \<and> js_get JNull ''participant_token'' = None \<and> js_get JNull ''accessToken'' = None
   \<and> js_get JNull ''token'' = None \<and> js_get JNull ''server_url'' = None
   \<and> js_get JNull ''livekit_url'' = None"
  by (simp add: tokenSource_def getToken_def apiFetch_def connection_fields_def)

text \<open>
  Claim C7, at the call the token source makes for the session \<open>s1\<close> with the agent name
  \<open>voice-agent\<close>: the body carries \<open>room_name\<close> and \<open>participant_name\<close> and nothing else.
  The agent name is the third argument of the call, and \<open>getToken\<close> binds two; so it is
  with any arguments.
\<close>

theorem agent_name_not_sent:
  "token_request (Some \<lparr>roomName = ''voice-demo-s1'', participantName = ''user-s1''\<rparr>)
       (Some \<lparr>agentName = Some ''voice-agent''\<rparr>)
     = Inr \<lparr>endpoint = ''/token'', http_method = ''POST'',
            body = JObj [(''room_name'', JStr ''voice-demo-s1''),
                         (''participant_name'', JStr ''user-s1'')]\<rparr>
   \<and> js_get (body (getToken_request rn pn further)) ''agent_name'' = None
   \<and> js_get (body (getToken_request (Some r) (Some p) further)) ''room_name'' = Some (JStr r)
   \<and> js_get (body (getToken_request (Some r) (Some p) further)) ''participant_name''
       = Some (JStr p)"
  by (simp add: token_request_def getToken_request_def agent_argument_def)

section \<open>Properties of push to talk\<close>

text \<open>
  Claim C6, as the code has it. A press switches the talking flag on and then asks for the
  microphone. When that succeeds the microphone is on as well. When it fails the
  microphone is as it was, the flag is on all the same, and the rejection goes back to the
  caller. Stopping switches the flag off, and the microphone too when the device allows
  it; a release while the flag is on switches the flag off.
\<close>

theorem talking_flag_set_before_microphone:
  "isPushToTalkActive (fst (startTalking device_ok p))
   \<and> (device_ok \<longrightarrow> isMicrophoneEnabled (fst (startTalking device_ok p))
                      \<and> snd (startTalking device_ok p) = Resolved)
   \<and> (\<not> device_ok \<longrightarrow>
         isMicrophoneEnabled (fst (startTalking device_ok p)) = isMicrophoneEnabled p
         \<and> snd (startTalking device_ok p) = Rejected)
   \<and> \<not> isPushToTalkActive (fst (stopTalking device_ok p))
   \<and> (device_ok \<longrightarrow> \<not> isMicrophoneEnabled (fst (stopTalking device_ok p)))
   \<and> (isPushToTalkActive p \<longrightarrow> \<not> isPushToTalkActive (handleRelease device_ok p))"
  by (simp add: startTalking_def stopTalking_def handleRelease_def setMicrophoneEnabled_def)

text \<open>
  The theorem at a press with a working device on a silent panel, and at the release that
  follows it.
\<close>

theorem talking_flag_set_before_microphone_witness:
  "isMicrophoneEnabled (fst (startTalking True \<lparr>isPushToTalkActive = False,
                                                  isMicrophoneEnabled = False\<rparr>))
   \<and> snd (startTalking True \<lparr>isPushToTalkActive = False, isMicrophoneEnabled = False\<rparr>) = Resolved
   \<and> \<not> isPushToTalkActive (handleRelease True \<lparr>isPushToTalkActive = True,
                                                    isMicrophoneEnabled = True\<rparr>)"
proof -
  have a: "isPushToTalkActive \<lparr>isPushToTalkActive = True, isMicrophoneEnabled = True\<rparr>"
    by simp
  from talking_flag_set_before_microphone
         [of True "\<lparr>isPushToTalkActive = False, isMicrophoneEnabled = False\<rparr>"]
       talking_flag_set_before_microphone
         [of True "\<lparr>isPushToTalkActive = True, isMicrophoneEnabled = True\<rparr>"] a
  show ?thesis by blast
qed

text \<open>
  Against claim C6 as stated: a press on a silent panel whose microphone cannot be enabled
  leaves the talking flag on and the microphone off.
\<close>

theorem failed_press_leaves_flag_on:
  "startTalking False \<lparr>isPushToTalkActive = False, isMicrophoneEnabled = False\<rparr>
     = (\<lparr>isPushToTalkActive = True, isMicrophoneEnabled = False\<rparr>, Rejected)"
  by (simp add: startTalking_def setMicrophoneEnabled_def)

section \<open>Properties of the citation messages\<close>

text \<open>
  Claim C3, as the code has it. A message on topic \<open>rag-sources\<close> replaces the stored
  sources by its \<open>sources\<close> member exactly when the payload parses to a value other than
  \<open>null\<close> whose \<open>type\<close> is the string \<open>rag_sources\<close> and whose \<open>sources\<close> is truthy; an
  array is truthy also when it is empty. A payload that does not parse, a \<open>null\<close>, another
  type, and missing or falsy sources leave the stored sources as they are.
\<close>

theorem citation_message_replaces_or_keeps:
  "(data \<noteq> JNull \<and> js_get data ''type'' = Some (JStr ''rag_sources'')
      \<and> js_get data ''sources'' = Some sources \<and> truthy (Some sources)
      \<longrightarrow> rag_sources_message (Some handleRagSourcesUpdate) (Some data) cur = sources)
   \<and> (js_get data ''type'' = Some (JStr ''rag_sources'') \<and> js_get data ''sources'' = Some (JArr xs)
      \<longrightarrow> rag_sources_message (Some handleRagSourcesUpdate) (Some data) cur = JArr xs)
   \<and> rag_sources_message (Some handleRagSourcesUpdate) None cur = cur
   \<and> rag_sources_message (Some handleRagSourcesUpdate) (Some JNull) cur = cur
   \<and> (js_get data ''type'' \<noteq> Some (JStr ''rag_sources'')
      \<longrightarrow> rag_sources_message (Some handleRagSourcesUpdate) (Some data) cur = cur)
   \<and> (\<not> truthy (js_get data ''sources'')
      \<longrightarrow> rag_sources_message (Some handleRagSourcesUpdate) (Some data) cur = cur)"
  by (auto simp: rag_sources_message_def handleRagSourcesUpdate_def split: option.splits)

text \<open>
  The theorem at the message with the two sources \<open>A\<close> and \<open>B\<close>, which replaces an empty
  set by the two in their order, and at a message of type \<open>other\<close>, which changes nothing.
\<close>

theorem citation_message_replaces_or_keeps_witness:
  "rag_sources_message (Some handleRagSourcesUpdate)
     (Some (JObj [(''type'', JStr ''rag_sources''),
                  (''sources'', JArr [JObj [(''content'', JStr ''A'')],
                                      JObj [(''content'', JStr ''B'')]])]))
     (JArr [])
     = JArr [JObj [(''content'', JStr ''A'')], JObj [(''content'', JStr ''B'')]]
   \<and> rag_sources_message (Some handleRagSourcesUpdate)
     (Some (JObj [(''type'', JStr ''other'')])) (JArr [JObj [(''content'', JStr ''A'')]])
     = JArr [JObj [(''content'', JStr ''A'')]]"
proof -
  let ?ab = "JArr [JObj [(''content'', JStr ''A'')], JObj [(''content'', JStr ''B'')]]"
  let ?m = "JObj [(''type'', JStr ''rag_sources''), (''sources'', ?ab)]"
  let ?o = "JObj [(''type'', JStr ''other'')]"
  have h1: "?m \<noteq> JNull \<and> js_get ?m ''type'' = Some (JStr ''rag_sources'')
            \<and> js_get ?m ''sources'' = Some ?ab \<and> truthy (Some ?ab)"
    by simp
  have h2: "js_get ?o ''type'' \<noteq> Some (JStr ''rag_sources'')" by simp
  from citation_message_replaces_or_keeps
         [where data = ?m and sources = ?ab and xs = "[]" and cur = "JArr []"] h1
  have a: "rag_sources_message (Some handleRagSourcesUpdate) (Some ?m) (JArr []) = ?ab"
    by blast
  from citation_message_replaces_or_keeps
         [where data = ?o and sources = JNull and xs = "[]"
            and cur = "JArr [JObj [(''content'', JStr ''A'')]]"] h2
  have b: "rag_sources_message (Some handleRagSourcesUpdate) (Some ?o)
             (JArr [JObj [(''content'', JStr ''A'')]]) = JArr [JObj [(''content'', JStr ''A'')]]"
    by blast
  from a b show ?thesis by simp
qed

text \<open>
  Against claim C3 as stated: a message of the right type whose \<open>sources\<close> is the empty
  array replaces a stored set of one source by the empty set.
\<close>

theorem empty_sources_replace:
  "rag_sources_message (Some handleRagSourcesUpdate)
     (Some (JObj [(''type'', JStr ''rag_sources''), (''sources'', JArr [])]))
     (JArr [JObj [(''content'', JStr ''A'')]]) = JArr []
   \<and> JArr [] \<noteq> JArr [JObj [(''content'', JStr ''A'')]]"
  by (simp add: rag_sources_message_def handleRagSourcesUpdate_def)

end
